theory Spec2Isabelle
  imports Main
begin

section \<open>Data model of \<open>internal/app/commands/config.go\<close>\<close>

text \<open>
  The credentials record \<open>coinbasepro.Auth\<close>. The source reaches it through the pointer
  field \<open>Auth\<close> of a profile and assigns its three string fields.
\<close>

record coinbasepro_Auth =
  Key :: string
  Passphrase :: string
  Secret :: string

text \<open>
  A profile. \<open>Auth\<close> is a Go pointer: \<open>None\<close> is the nil pointer. \<open>ServerPort\<close> is a Go
  \<open>int\<close>; the program only copies it and compares it with zero, so it is kept as an
  integer.
\<close>

record reticuleConfig =
  BaseURL :: string
  FeedURL :: string
  Auth :: "coinbasepro_Auth option"
  ServerIP :: string
  ServerPort :: int
  ServerSecret :: string

text \<open>
  The persisted root value. \<open>Configs\<close> is a Go map: \<open>None\<close> is the nil map (the zero value
  of the struct), \<open>Some m\<close> an allocated map, possibly without entries.
\<close>

record reticuleConfigSet =
  Current :: string
  Configs :: "(string \<rightharpoonup> reticuleConfig) option"

text \<open>
  The three command structs. A \<open>*url.URL\<close> flag is kept as the text its \<open>String()\<close>
  method returns, \<open>None\<close> being the nil pointer.
\<close>

record createReticuleConfigCmd =
  create_Name :: string
  create_BaseURL :: "string option"
  create_FeedURL :: "string option"
  create_Key :: string
  create_Passphrase :: string
  create_Secret :: string
  create_Use :: bool
  create_ServerPort :: int
  create_BindAddress :: string
  create_ServerAuth :: string

record deleteReticuleConfigCmd =
  delete_Name :: string

record updateReticuleConfigCmd =
  update_Name :: string
  update_BaseURL :: "string option"
  update_FeedURL :: "string option"
  update_Key :: string
  update_Passphrase :: string
  update_Rename :: string
  update_Secret :: string
  update_Use :: bool
  update_ServerPort :: int
  update_BindAddress :: string
  update_ServerAuth :: string

section \<open>The storage accessor\<close>

text \<open>
  A path is the list of its components; \<open>path.Join\<close> appends components and \<open>path.Dir\<close>
  drops the last one (the lexical cleaning of \<open>path.Join\<close> is not modelled).

  The file system holds the contents of every regular file and the set of existing
  directories. An operation fails with \<open>ErrNotExist\<close> when the file, or the directory that
  should receive it, is missing; every operation named in \<open>failing\<close> fails for another
  reason (permissions, a device error) and then has no effect.
\<close>

type_synonym path = "string list"

definition path_Dir :: "path \<Rightarrow> path" where
  "path_Dir p = butlast p"

datatype fs_op = Op_Open | Op_OpenFile | Op_MkdirAll | Op_Create | Op_Read | Op_Write | Op_Close

datatype fs_error = ErrNotExist | ErrOther fs_op

record Fs =
  files :: "path \<rightharpoonup> string"
  dirs :: "path set"
  failing :: "fs_op set"

text \<open>An open file: the path it was opened at and the offset of the next read or write.\<close>

record File =
  file_path :: path
  file_pos :: nat

definition opened :: "path \<Rightarrow> File" where
  "opened p = \<lparr>file_path = p, file_pos = 0\<rparr>"

text \<open>\<open>fs.Open(p)\<close>: read-only, the file must exist.\<close>

definition Fs_Open :: "Fs \<Rightarrow> path \<Rightarrow> fs_error + File" where
  "Fs_Open fs p =
     (case files fs p of
        None \<Rightarrow> Inl ErrNotExist
      | Some b \<Rightarrow> if Op_Open \<in> failing fs then Inl (ErrOther Op_Open) else Inr (opened p))"

text \<open>
  \<open>fs.OpenFile(p, os.O_RDWR|os.O_CREATE, 0755)\<close>: an existing file is opened at offset 0
  with its contents kept; a missing file is created empty when its directory exists.
\<close>

definition Fs_OpenFile_RDWR_CREATE :: "Fs \<Rightarrow> path \<Rightarrow> fs_error + Fs \<times> File" where
  "Fs_OpenFile_RDWR_CREATE fs p =
     (case files fs p of
        Some b \<Rightarrow>
          if Op_OpenFile \<in> failing fs then Inl (ErrOther Op_OpenFile) else Inr (fs, opened p)
      | None \<Rightarrow>
          if path_Dir p \<notin> dirs fs then Inl ErrNotExist
          else if Op_OpenFile \<in> failing fs then Inl (ErrOther Op_OpenFile)
          else Inr (fs\<lparr>files := (files fs)(p \<mapsto> [])\<rparr>, opened p))"

text \<open>
  \<open>fs.OpenFile(p, os.O_WRONLY|os.O_TRUNC, 0755)\<close>: the file must exist and is emptied.
\<close>

definition Fs_OpenFile_WRONLY_TRUNC :: "Fs \<Rightarrow> path \<Rightarrow> fs_error + Fs \<times> File" where
  "Fs_OpenFile_WRONLY_TRUNC fs p =
     (case files fs p of
        None \<Rightarrow> Inl ErrNotExist
      | Some b \<Rightarrow>
          if Op_OpenFile \<in> failing fs then Inl (ErrOther Op_OpenFile)
          else Inr (fs\<lparr>files := (files fs)(p \<mapsto> [])\<rparr>, opened p))"

text \<open>\<open>fs.MkdirAll(d, os.ModePerm)\<close>: \<open>d\<close> and all its ancestors exist afterwards.\<close>

definition Fs_MkdirAll :: "Fs \<Rightarrow> path \<Rightarrow> fs_error + Fs" where
  "Fs_MkdirAll fs d =
     (if Op_MkdirAll \<in> failing fs then Inl (ErrOther Op_MkdirAll)
      else Inr (fs\<lparr>dirs := dirs fs \<union> (\<lambda>n. take n d) ` {0..length d}\<rparr>))"

text \<open>\<open>fs.Create(p)\<close>: creates or truncates the file; its directory must exist.\<close>

definition Fs_Create :: "Fs \<Rightarrow> path \<Rightarrow> fs_error + Fs \<times> File" where
  "Fs_Create fs p =
     (if path_Dir p \<notin> dirs fs then Inl ErrNotExist
      else if Op_Create \<in> failing fs then Inl (ErrOther Op_Create)
      else Inr (fs\<lparr>files := (files fs)(p \<mapsto> [])\<rparr>, opened p))"

text \<open>
  \<open>ioutil.ReadAll(f)\<close>: everything from the current offset to the end of the file; the
  offset is left at the end.
\<close>

definition File_ReadAll :: "Fs \<Rightarrow> File \<Rightarrow> fs_error + string \<times> File" where
  "File_ReadAll fs f =
     (case files fs (file_path f) of
        None \<Rightarrow> Inl (ErrOther Op_Read)
      | Some b \<Rightarrow>
          if Op_Read \<in> failing fs then Inl (ErrOther Op_Read)
          else Inr (drop (file_pos f) b, f\<lparr>file_pos := max (file_pos f) (length b)\<rparr>))"

text \<open>
  \<open>f.Write(data)\<close>: the bytes replace the contents from the current offset on and extend
  the file where they reach past its end (a gap before the offset reads as zero bytes).
\<close>

definition write_at :: "nat \<Rightarrow> string \<Rightarrow> string \<Rightarrow> string" where
  "write_at pos data b =
     take pos (b @ replicate (pos - length b) (CHR 0x00)) @ data @ drop (pos + length data) b"

definition File_Write :: "Fs \<Rightarrow> File \<Rightarrow> string \<Rightarrow> fs_error + Fs \<times> File" where
  "File_Write fs f data =
     (case files fs (file_path f) of
        None \<Rightarrow> Inl (ErrOther Op_Write)
      | Some b \<Rightarrow>
          if Op_Write \<in> failing fs then Inl (ErrOther Op_Write)
          else Inr (fs\<lparr>files := (files fs)(file_path f \<mapsto> write_at (file_pos f) data b)\<rparr>,
                    f\<lparr>file_pos := file_pos f + length data\<rparr>))"

text \<open>\<open>f.Close()\<close>: the error it returns, if any.\<close>

definition File_Close :: "Fs \<Rightarrow> File \<Rightarrow> fs_error option" where
  "File_Close fs f = (if Op_Close \<in> failing fs then Some (ErrOther Op_Close) else None)"

section \<open>Errors and the helpers of package \<open>coinbasepro\<close>\<close>

text \<open>
  Every way a command ends other than by returning nil. The four messages built in the
  source are \<open>NoHomeDirectory\<close> ("no user home directory defined"),
  \<open>ConfigFileDoesNotExist\<close> ("config file ... does not exist, create a new config with
  `create config reticule`"), \<open>ConfigAlreadyExists\<close> ("reticule config ... already exists,
  use `config update reticule` to modify an existing config") and \<open>ConfigDoesNotExist\<close>
  ("reticule config ... does not exists, use `config create reticule` to create a new
  config"). \<open>FsError\<close> passes on an error of the storage accessor, \<open>YamlError\<close> one of
  \<open>yaml.Unmarshal\<close>. The two panics are Go's runtime panics on a nil pointer dereference
  and on an assignment to an entry of a nil map.
\<close>

datatype error =
    NoHomeDirectory
  | ConfigFileDoesNotExist path
  | ConfigAlreadyExists string
  | ConfigDoesNotExist string
  | FsError fs_error
  | YamlError
  | PanicNilPointer
  | PanicNilMap

text \<open>
  Modelled from the spec: \<open>coinbasepro.Capture\<close>, which is not among the sources. The spec
  says of the deferred close that the first error encountered takes priority if one
  occurred, and that otherwise the close error is returned.
\<close>

definition Capture :: "error option \<Rightarrow> fs_error option \<Rightarrow> error option" where
  "Capture capture err =
     (case capture of
        Some e \<Rightarrow> Some e
      | None \<Rightarrow> (case err of None \<Rightarrow> None | Some e \<Rightarrow> Some (FsError e)))"

text \<open>
  Modelled from the spec: \<open>coinbasepro.NewAuth\<close>, which is not among the sources. The spec
  builds the new profile from the supplied key, passphrase and secret.
\<close>

definition NewAuth :: "string \<Rightarrow> string \<Rightarrow> string \<Rightarrow> coinbasepro_Auth option" where
  "NewAuth key passphrase secret = Some \<lparr>Key = key, Passphrase = passphrase, Secret = secret\<rparr>"

section \<open>Go maps\<close>

text \<open>
  Reading a key and deleting a key are defined on the nil map (nothing is found, nothing
  happens); assigning to an entry of the nil map panics.
\<close>

definition go_lookup :: "('k \<rightharpoonup> 'v) option \<Rightarrow> 'k \<Rightarrow> 'v option" where
  "go_lookup m k = (case m of None \<Rightarrow> None | Some f \<Rightarrow> f k)"

definition go_delete :: "('k \<rightharpoonup> 'v) option \<Rightarrow> 'k \<Rightarrow> ('k \<rightharpoonup> 'v) option" where
  "go_delete m k = (case m of None \<Rightarrow> None | Some f \<Rightarrow> Some (f(k := None)))"

definition go_assign :: "('k \<rightharpoonup> 'v) option \<Rightarrow> 'k \<Rightarrow> 'v \<Rightarrow> error + ('k \<rightharpoonup> 'v) option" where
  "go_assign m k v = (case m of None \<Rightarrow> Inl PanicNilMap | Some f \<Rightarrow> Inr (Some (f(k \<mapsto> v))))"

section \<open>The config-set repository\<close>

text \<open>
  The codec is the YAML library, outside the repository: \<open>enc\<close> is the text
  \<open>yaml.Encoder\<close> produces for a config set, \<open>dec\<close> what \<open>yaml.Unmarshal\<close> stores into a
  zero config set, \<open>None\<close> when it returns an error. Both are parameters of every
  operation. The home directory of the user is the parameter \<open>home\<close>, \<open>None\<close> when
  \<open>os.UserHomeDir\<close> fails.
\<close>

type_synonym encoder = "reticuleConfigSet \<Rightarrow> string"
type_synonym decoder = "string \<Rightarrow> reticuleConfigSet option"

definition configPath :: "path option \<Rightarrow> error + path" where
  "configPath home =
     (case home of
        None \<Rightarrow> Inl NoHomeDirectory
      | Some h \<Rightarrow> Inr (h @ [''.reticule'', ''reticule'']))"

text \<open>
  \<open>readConfigSet\<close> opens read-only and ignores the error of its deferred close, so it
  leaves the file system as it found it.
\<close>

definition readConfigSet :: "decoder \<Rightarrow> Fs \<Rightarrow> path \<Rightarrow> error + reticuleConfigSet" where
  "readConfigSet dec fs p =
     (case Fs_Open fs p of
        Inl ErrNotExist \<Rightarrow> Inl (ConfigFileDoesNotExist p)
      | Inl (ErrOther op) \<Rightarrow> Inl (FsError (ErrOther op))
      | Inr f \<Rightarrow>
          (case File_ReadAll fs f of
             Inl e \<Rightarrow> Inl (FsError e)
           | Inr (b, f') \<Rightarrow>
               (case dec b of
                  None \<Rightarrow> Inl YamlError
                | Some configSet \<Rightarrow> Inr configSet)))"

text \<open>
  \<open>writeConfigSet\<close> truncates on opening, writes the encoding (the encoder's \<open>Encode\<close> and
  \<open>Close\<close> together put the whole text through the file's \<open>Write\<close>), and closes the file
  on every path after the open.
\<close>

definition writeConfigSet :: "encoder \<Rightarrow> Fs \<Rightarrow> path \<Rightarrow> reticuleConfigSet \<Rightarrow> error option \<times> Fs" where
  "writeConfigSet enc fs p configSet =
     (case Fs_OpenFile_WRONLY_TRUNC fs p of
        Inl e \<Rightarrow> (Some (FsError e), fs)
      | Inr (fs1, f) \<Rightarrow>
          (case File_Write fs1 f (enc configSet) of
             Inl e \<Rightarrow> (Capture (Some (FsError e)) (File_Close fs1 f), fs1)
           | Inr (fs2, f') \<Rightarrow> (Capture None (File_Close fs2 f'), fs2)))"

section \<open>Create\<close>

text \<open>
  Lines 96 to 114 of \<open>createReticuleConfigCmd.Run\<close>: the new profile is built (calling
  \<open>String()\<close> on a nil URL panics), a nil map is allocated and makes the new name current,
  the use flag makes it current, and the profile is stored under its name.
\<close>

definition create_configSet :: "createReticuleConfigCmd \<Rightarrow> reticuleConfigSet \<Rightarrow> error + reticuleConfigSet" where
  "create_configSet c configSet =
     (case create_BaseURL c of
        None \<Rightarrow> Inl PanicNilPointer
      | Some baseURL \<Rightarrow>
          (case create_FeedURL c of
             None \<Rightarrow> Inl PanicNilPointer
           | Some feedURL \<Rightarrow>
               (let cfg = \<lparr>BaseURL = baseURL, FeedURL = feedURL,
                           Auth = NewAuth (create_Key c) (create_Passphrase c) (create_Secret c),
                           ServerIP = create_BindAddress c,
                           ServerPort = create_ServerPort c,
                           ServerSecret = create_ServerAuth c\<rparr>;
                    configSet1 = (if Configs configSet = None
                                  then configSet\<lparr>Configs := Some Map.empty, Current := create_Name c\<rparr>
                                  else configSet);
                    configSet2 = (if create_Use c then configSet1\<lparr>Current := create_Name c\<rparr>
                                  else configSet1)
                in (case go_assign (Configs configSet2) (create_Name c) cfg of
                      Inl e \<Rightarrow> Inl e
                    | Inr m \<Rightarrow> Inr (configSet2\<lparr>Configs := m\<rparr>)))))"

text \<open>
  Lines 96 to 120: the config set is completed and encoded into the open file \<open>f\<close>, at
  the offset \<open>f\<close> has reached.
\<close>

definition create_encode :: "encoder \<Rightarrow> createReticuleConfigCmd \<Rightarrow> reticuleConfigSet \<Rightarrow> Fs \<Rightarrow> File \<Rightarrow> error option \<times> Fs" where
  "create_encode enc c configSet fs f =
     (case create_configSet c configSet of
        Inl e \<Rightarrow> (Some e, fs)
      | Inr configSet' \<Rightarrow>
          (case File_Write fs f (enc configSet') of
             Inl e \<Rightarrow> (Some (FsError e), fs)
           | Inr (fs', f') \<Rightarrow> (None, fs')))"

text \<open>
  \<open>createReticuleConfigCmd.Run\<close>. When the open reports a missing file the directory and
  the file are created and the zero config set is used; the file opened there is not
  closed by the source. Otherwise the close is deferred, the file is read and decoded,
  and a profile of the same name ends the command.
\<close>

definition create_Run :: "encoder \<Rightarrow> decoder \<Rightarrow> path option \<Rightarrow> createReticuleConfigCmd \<Rightarrow> Fs \<Rightarrow> error option \<times> Fs" where
  "create_Run enc dec home c fs =
     (case configPath home of
        Inl e \<Rightarrow> (Some e, fs)
      | Inr p \<Rightarrow>
          (case Fs_OpenFile_RDWR_CREATE fs p of
             Inl ErrNotExist \<Rightarrow>
               (case Fs_MkdirAll fs (path_Dir p) of
                  Inl e \<Rightarrow> (Some (FsError e), fs)
                | Inr fs1 \<Rightarrow>
                    (case Fs_Create fs1 p of
                       Inl e \<Rightarrow> (Some (FsError e), fs1)
                     | Inr (fs2, f) \<Rightarrow>
                         create_encode enc c \<lparr>Current = [], Configs = None\<rparr> fs2 f))
           | Inl (ErrOther op) \<Rightarrow> (Some (FsError (ErrOther op)), fs)
           | Inr (fs1, f) \<Rightarrow>
               (case File_ReadAll fs1 f of
                  Inl e \<Rightarrow> (Capture (Some (FsError e)) (File_Close fs1 f), fs1)
                | Inr (b, f1) \<Rightarrow>
                    (case dec b of
                       None \<Rightarrow> (Capture (Some YamlError) (File_Close fs1 f1), fs1)
                     | Some configSet \<Rightarrow>
                         (case go_lookup (Configs configSet) (create_Name c) of
                            Some existing \<Rightarrow>
                              (Capture (Some (ConfigAlreadyExists (create_Name c))) (File_Close fs1 f1), fs1)
                          | None \<Rightarrow>
                              (case create_encode enc c configSet fs1 f1 of
                                 (capture, fs2) \<Rightarrow> (Capture capture (File_Close fs2 f1), fs2)))))))"

section \<open>Delete\<close>

definition delete_Run :: "encoder \<Rightarrow> decoder \<Rightarrow> path option \<Rightarrow> deleteReticuleConfigCmd \<Rightarrow> Fs \<Rightarrow> error option \<times> Fs" where
  "delete_Run enc dec home d fs =
     (case configPath home of
        Inl e \<Rightarrow> (Some e, fs)
      | Inr p \<Rightarrow>
          (case readConfigSet dec fs p of
             Inl e \<Rightarrow> (Some e, fs)
           | Inr configSet \<Rightarrow>
               writeConfigSet enc fs p
                 (configSet\<lparr>Configs := go_delete (Configs configSet) (delete_Name d)\<rparr>)))"

section \<open>Update\<close>

text \<open>
  An assignment \<open>cfg.Auth.X = v\<close>: it goes through the pointer and panics when the pointer
  is nil. The profile \<open>cfg\<close> is a copy of the map entry that shares the pointed-to
  credentials with it; the entry is overwritten or deleted before anything is written, so
  the copy is all that is observed.
\<close>

definition assign_Auth :: "(coinbasepro_Auth \<Rightarrow> coinbasepro_Auth) \<Rightarrow> reticuleConfig \<Rightarrow> error + reticuleConfig" where
  "assign_Auth upd cfg =
     (case Auth cfg of
        None \<Rightarrow> Inl PanicNilPointer
      | Some a \<Rightarrow> Inr (cfg\<lparr>Auth := Some (upd a)\<rparr>))"

text \<open>Lines 167 to 181 of \<open>updateReticuleConfigCmd.Run\<close>: the URL and credential fields.\<close>

definition update_credentials :: "updateReticuleConfigCmd \<Rightarrow> reticuleConfig \<Rightarrow> error + reticuleConfig" where
  "update_credentials c cfg =
     (let cfg1 = (case update_BaseURL c of None \<Rightarrow> cfg | Some u \<Rightarrow> cfg\<lparr>BaseURL := u\<rparr>);
          cfg2 = (case update_FeedURL c of None \<Rightarrow> cfg1 | Some u \<Rightarrow> cfg1\<lparr>FeedURL := u\<rparr>)
      in (case (if update_Key c \<noteq> [] then assign_Auth (\<lambda>a. a\<lparr>Key := update_Key c\<rparr>) cfg2
                else Inr cfg2) of
            Inl e \<Rightarrow> Inl e
          | Inr cfg3 \<Rightarrow>
              (case (if update_Passphrase c \<noteq> []
                     then assign_Auth (\<lambda>a. a\<lparr>Passphrase := update_Passphrase c\<rparr>) cfg3
                     else Inr cfg3) of
                 Inl e \<Rightarrow> Inl e
               | Inr cfg4 \<Rightarrow>
                   (if update_Secret c \<noteq> []
                    then assign_Auth (\<lambda>a. a\<lparr>Secret := update_Secret c\<rparr>) cfg4
                    else Inr cfg4))))"

text \<open>Lines 189 to 197: the server fields.\<close>

definition update_server :: "updateReticuleConfigCmd \<Rightarrow> reticuleConfig \<Rightarrow> reticuleConfig" where
  "update_server c cfg =
     (let cfg1 = (if update_BindAddress c \<noteq> [] then cfg\<lparr>ServerIP := update_BindAddress c\<rparr> else cfg);
          cfg2 = (if update_ServerPort c \<noteq> 0 then cfg1\<lparr>ServerPort := update_ServerPort c\<rparr> else cfg1)
      in if update_ServerAuth c \<noteq> [] then cfg2\<lparr>ServerSecret := update_ServerAuth c\<rparr> else cfg2)"

text \<open>
  Lines 163 to 198: the lookup, the patch of the copy, the rename (the old key is deleted
  and the new name replaces \<open>c.Name\<close>), the use flag, and the store under the name.
\<close>

definition update_configSet :: "updateReticuleConfigCmd \<Rightarrow> reticuleConfigSet \<Rightarrow> error + reticuleConfigSet" where
  "update_configSet c configSet =
     (case go_lookup (Configs configSet) (update_Name c) of
        None \<Rightarrow> Inl (ConfigDoesNotExist (update_Name c))
      | Some cfg \<Rightarrow>
          (case update_credentials c cfg of
             Inl e \<Rightarrow> Inl e
           | Inr cfg5 \<Rightarrow>
               (let configSet1 = (if update_Rename c \<noteq> []
                                  then configSet\<lparr>Configs := go_delete (Configs configSet) (update_Name c)\<rparr>
                                  else configSet);
                    name = (if update_Rename c \<noteq> [] then update_Rename c else update_Name c);
                    configSet2 = (if update_Use c then configSet1\<lparr>Current := name\<rparr> else configSet1);
                    cfg8 = update_server c cfg5
                in (case go_assign (Configs configSet2) name cfg8 of
                      Inl e \<Rightarrow> Inl e
                    | Inr m \<Rightarrow> Inr (configSet2\<lparr>Configs := m\<rparr>)))))"

definition update_Run :: "encoder \<Rightarrow> decoder \<Rightarrow> path option \<Rightarrow> updateReticuleConfigCmd \<Rightarrow> Fs \<Rightarrow> error option \<times> Fs" where
  "update_Run enc dec home c fs =
     (case configPath home of
        Inl e \<Rightarrow> (Some e, fs)
      | Inr p \<Rightarrow>
          (case readConfigSet dec fs p of
             Inl e \<Rightarrow> (Some e, fs)
           | Inr configSet \<Rightarrow>
               (case update_configSet c configSet of
                  Inl e \<Rightarrow> (Some e, fs)
                | Inr configSet' \<Rightarrow> writeConfigSet enc fs p configSet')))"

section \<open>Sample inputs\<close>

text \<open>
  Concrete values at which the theorems below are instantiated: a home directory, two
  stored profiles, a profile stored without credentials, and the flags of three
  commands. \<open>sample_create\<close> has every flag filled, as the defaults of the flag parser
  leave it.
\<close>

definition sample_home :: path where
  "sample_home = [''home'', ''trader'']"

definition sample_path :: path where
  "sample_path = [''home'', ''trader'', ''.reticule'', ''reticule'']"

definition alice :: reticuleConfig where
  "alice = \<lparr>BaseURL = ''https://api.example'', FeedURL = ''wss://feed.example'',
            Auth = Some \<lparr>Key = ''K1'', Passphrase = ''P1'', Secret = ''S1''\<rparr>,
            ServerIP = ''127.0.0.1'', ServerPort = 80, ServerSecret = ''default''\<rparr>"

definition bob :: reticuleConfig where
  "bob = \<lparr>BaseURL = ''https://api.example'', FeedURL = ''wss://feed.example'',
          Auth = Some \<lparr>Key = ''K2'', Passphrase = ''P2'', Secret = ''S2''\<rparr>,
          ServerIP = ''10.0.0.2'', ServerPort = 8080, ServerSecret = ''hunter2''\<rparr>"

definition dave :: reticuleConfig where
  "dave = \<lparr>BaseURL = ''https://api.example'', FeedURL = ''wss://feed.example'',
           Auth = None,
           ServerIP = ''127.0.0.1'', ServerPort = 80, ServerSecret = ''default''\<rparr>"

definition stored_set :: reticuleConfigSet where
  "stored_set = \<lparr>Current = ''alice'', Configs = Some [''alice'' \<mapsto> alice, ''bob'' \<mapsto> bob]\<rparr>"

definition legacy_set :: reticuleConfigSet where
  "legacy_set = \<lparr>Current = ''dave'', Configs = Some [''dave'' \<mapsto> dave]\<rparr>"

definition stored_text :: string where
  "stored_text = ''current: alice; configs: alice, bob''"

definition legacy_text :: string where
  "legacy_text = ''current: dave; configs: dave''"

text \<open>
  A decoder that knows the empty document, which leaves the zero config set as
  \<open>yaml.Unmarshal\<close> does, and the two stored documents; and an encoder that writes the
  current name only. They stand in for the YAML library where a concrete codec is needed.
\<close>

definition sample_dec :: decoder where
  "sample_dec b =
     (if b = [] then Some \<lparr>Current = [], Configs = None\<rparr>
      else if b = stored_text then Some stored_set
      else if b = legacy_text then Some legacy_set
      else None)"

definition sample_enc :: encoder where
  "sample_enc cs = ''current: '' @ Current cs"

definition sample_fs :: Fs where
  "sample_fs = \<lparr>files = [sample_path \<mapsto> stored_text],
                dirs = {[], [''home''], [''home'', ''trader''], [''home'', ''trader'', ''.reticule'']},
                failing = {}\<rparr>"

definition legacy_fs :: Fs where
  "legacy_fs = \<lparr>files = [sample_path \<mapsto> legacy_text],
                dirs = {[], [''home''], [''home'', ''trader''], [''home'', ''trader'', ''.reticule'']},
                failing = {}\<rparr>"

definition fresh_fs :: Fs where
  "fresh_fs = \<lparr>files = Map.empty, dirs = {[], [''home''], [''home'', ''trader'']}, failing = {}\<rparr>"

definition sample_create :: "string \<Rightarrow> createReticuleConfigCmd" where
  "sample_create n =
     \<lparr>create_Name = n,
      create_BaseURL = Some ''https://api.example'',
      create_FeedURL = Some ''wss://feed.example'',
      create_Key = ''K3'', create_Passphrase = ''P3'', create_Secret = ''S3'',
      create_Use = False, create_ServerPort = 80, create_BindAddress = ''127.0.0.1'',
      create_ServerAuth = ''default''\<rparr>"

definition sample_created :: "string \<Rightarrow> reticuleConfig" where
  "sample_created n =
     \<lparr>BaseURL = ''https://api.example'',
      FeedURL = ''wss://feed.example'',
      Auth = Some \<lparr>Key = ''K3'', Passphrase = ''P3'', Secret = ''S3''\<rparr>,
      ServerIP = ''127.0.0.1'', ServerPort = 80, ServerSecret = ''default''\<rparr>"

text \<open>An update command with no flag given besides the name.\<close>

definition sample_update :: "string \<Rightarrow> updateReticuleConfigCmd" where
  "sample_update n =
     \<lparr>update_Name = n, update_BaseURL = None, update_FeedURL = None, update_Key = [],
      update_Passphrase = [], update_Rename = [], update_Secret = [], update_Use = False,
      update_ServerPort = 0, update_BindAddress = [], update_ServerAuth = []\<rparr>"

section \<open>The storage accessor and the repository: basic facts\<close>

lemma write_at_start: "write_at 0 data [] = data"
  by (simp add: write_at_def)

lemma write_at_end: "write_at (length b) data b = b @ data"
  by (simp add: write_at_def)

lemma take_all_mem: "d \<in> (\<lambda>n. take n d) ` {0..length d}"
  by (rule image_eqI [where x = "length d"]) simp_all

lemma writeConfigSet_ok:
  assumes "files fs p = Some b"
    and "Op_OpenFile \<notin> failing fs" and "Op_Write \<notin> failing fs" and "Op_Close \<notin> failing fs"
  shows "writeConfigSet enc fs p cs = (None, fs\<lparr>files := (files fs)(p \<mapsto> enc cs)\<rparr>)"
  using assms
  by (simp add: writeConfigSet_def Fs_OpenFile_WRONLY_TRUNC_def File_Write_def File_Close_def
      Capture_def opened_def write_at_start)

lemma writeConfigSet_error:
  assumes "fst (writeConfigSet enc fs p cs) = Some e"
  shows "\<exists>fe. e = FsError fe"
  using assms
  by (auto simp add: writeConfigSet_def Capture_def File_Close_def
      split: sum.splits prod.splits option.splits if_splits)

lemma readConfigSet_existing:
  assumes "files fs p = Some b" and "Op_Open \<notin> failing fs" and "Op_Read \<notin> failing fs"
  shows "readConfigSet dec fs p = (case dec b of None \<Rightarrow> Inl YamlError | Some cs \<Rightarrow> Inr cs)"
  using assms
  by (simp add: readConfigSet_def Fs_Open_def File_ReadAll_def opened_def)

lemma readConfigSet_missing:
  assumes "files fs p = None"
  shows "readConfigSet dec fs p = Inl (ConfigFileDoesNotExist p)"
  using assms by (simp add: readConfigSet_def Fs_Open_def)

lemma readConfigSet_Inr:
  assumes "readConfigSet dec fs p = Inr cs"
  shows "\<exists>b. files fs p = Some b \<and> dec b = Some cs"
  using assms
  by (auto simp add: readConfigSet_def Fs_Open_def File_ReadAll_def opened_def
      split: option.splits if_splits sum.splits fs_error.splits)

lemma writeConfigSet_read:
  assumes "readConfigSet dec fs p = Inr cs"
    and "Op_OpenFile \<notin> failing fs" and "Op_Write \<notin> failing fs" and "Op_Close \<notin> failing fs"
  shows "writeConfigSet enc fs p cs' = (None, fs\<lparr>files := (files fs)(p \<mapsto> enc cs')\<rparr>)"
proof -
  from assms(1) obtain b where "files fs p = Some b"
    using readConfigSet_Inr by blast
  with assms(2-4) show ?thesis by (simp add: writeConfigSet_ok)
qed

lemma go_delete_absent: "go_lookup m k = None \<Longrightarrow> go_delete m k = m"
  by (cases m) (auto simp add: go_lookup_def go_delete_def)

lemma go_lookup_delete:
  "go_lookup (go_delete m k) k' = (if k' = k then None else go_lookup m k')"
  by (cases m) (simp_all add: go_lookup_def go_delete_def)

lemma sample_read: "readConfigSet sample_dec sample_fs sample_path = Inr stored_set"
  by (simp add: readConfigSet_existing [where b = stored_text] sample_fs_def sample_dec_def
      stored_text_def)

lemma legacy_read: "readConfigSet sample_dec legacy_fs sample_path = Inr legacy_set"
  by (simp add: readConfigSet_existing [where b = legacy_text] legacy_fs_def sample_dec_def
      stored_text_def legacy_text_def)

lemma sample_configPath: "configPath (Some sample_home) = Inr sample_path"
  by (simp add: configPath_def sample_home_def sample_path_def)

section \<open>Properties of Create\<close>

lemma create_configSet_nil:
  assumes "Configs cs = None" and "create_BaseURL c = Some bu" and "create_FeedURL c = Some fu"
  shows "create_configSet c cs =
     Inr \<lparr>Current = create_Name c,
          Configs = Some [create_Name c \<mapsto>
            \<lparr>BaseURL = bu, FeedURL = fu,
             Auth = NewAuth (create_Key c) (create_Passphrase c) (create_Secret c),
             ServerIP = create_BindAddress c, ServerPort = create_ServerPort c,
             ServerSecret = create_ServerAuth c\<rparr>]\<rparr>"
  using assms
  by (cases cs) (simp add: create_configSet_def go_assign_def Let_def)

lemma create_configSet_allocated:
  assumes "Configs cs = Some m" and "create_BaseURL c = Some bu" and "create_FeedURL c = Some fu"
  shows "create_configSet c cs =
     Inr \<lparr>Current = (if create_Use c then create_Name c else Current cs),
          Configs = Some (m(create_Name c \<mapsto>
            \<lparr>BaseURL = bu, FeedURL = fu,
             Auth = NewAuth (create_Key c) (create_Passphrase c) (create_Secret c),
             ServerIP = create_BindAddress c, ServerPort = create_ServerPort c,
             ServerSecret = create_ServerAuth c\<rparr>))\<rparr>"
  using assms
  by (cases cs) (simp add: create_configSet_def go_assign_def Let_def)

text \<open>
  An allocated map without entries is not the nil map: a config set that lost its last
  profile to a delete keeps its \<open>current\<close> when a profile is created without the use flag.
\<close>

lemma create_configSet_empty_map_keeps_current:
  assumes "Configs cs = Some Map.empty" and "\<not> create_Use c"
    and "create_BaseURL c = Some bu" and "create_FeedURL c = Some fu"
    and "create_configSet c cs = Inr cs'"
  shows "Current cs' = Current cs"
  using assms by (auto simp add: create_configSet_allocated)

text \<open>
  Create on a file that is already there, with a name that is free: the file is opened
  without truncation, reading it leaves the offset at its end, and the encoding is
  written from there on.
\<close>

lemma create_Run_existing_file:
  assumes "configPath home = Inr p"
    and "files fs p = Some b" and "failing fs = {}"
    and "dec b = Some cs" and "go_lookup (Configs cs) (create_Name c) = None"
    and "create_configSet c cs = Inr cs'"
  shows "create_Run enc dec home c fs = (None, fs\<lparr>files := (files fs)(p \<mapsto> b @ enc cs')\<rparr>)"
  using assms
  by (simp add: create_Run_def Fs_OpenFile_RDWR_CREATE_def File_ReadAll_def
      opened_def create_encode_def File_Write_def File_Close_def Capture_def write_at_end)

text \<open>
  C1. After a mutator the config file should hold exactly the encoding of the final config
  set, all earlier contents replaced; in particular after a Create against an existing
  file with a name not yet present. Update and Delete do so (\<open>writeConfigSet\<close> truncates),
  and so does Create on a missing or empty file, but Create on a file with contents does
  not: with the stored document of two profiles and the command creating \<open>carol\<close>, the
  command succeeds and the file afterwards is the old document followed by the encoding
  of the merged config set, which is not that encoding alone.
\<close>

theorem create_Run_appends_to_existing_file:
  "create_Run sample_enc sample_dec (Some sample_home) (sample_create ''carol'') sample_fs =
     (None, sample_fs\<lparr>files := [sample_path \<mapsto>
        stored_text @ sample_enc \<lparr>Current = ''alice'',
          Configs = Some [''alice'' \<mapsto> alice, ''bob'' \<mapsto> bob, ''carol'' \<mapsto> sample_created ''carol'']\<rparr>]\<rparr>) \<and>
   stored_text @ sample_enc \<lparr>Current = ''alice'',
          Configs = Some [''alice'' \<mapsto> alice, ''bob'' \<mapsto> bob, ''carol'' \<mapsto> sample_created ''carol'']\<rparr>
     \<noteq> sample_enc \<lparr>Current = ''alice'',
          Configs = Some [''alice'' \<mapsto> alice, ''bob'' \<mapsto> bob, ''carol'' \<mapsto> sample_created ''carol'']\<rparr>"
proof -
  let ?merged = "\<lparr>Current = ''alice'',
      Configs = Some [''alice'' \<mapsto> alice, ''bob'' \<mapsto> bob, ''carol'' \<mapsto> sample_created ''carol'']\<rparr>"
  have built: "create_configSet (sample_create ''carol'') stored_set = Inr ?merged"
    by (simp add: create_configSet_allocated [where m = "[''alice'' \<mapsto> alice, ''bob'' \<mapsto> bob]"]
        stored_set_def sample_create_def sample_created_def NewAuth_def)
  have free: "go_lookup (Configs stored_set) (create_Name (sample_create ''carol'')) = None"
    by (simp add: go_lookup_def stored_set_def sample_create_def)
  have "create_Run sample_enc sample_dec (Some sample_home) (sample_create ''carol'') sample_fs =
      (None, sample_fs\<lparr>files := (files sample_fs)(sample_path \<mapsto> stored_text @ sample_enc ?merged)\<rparr>)"
    using sample_configPath _ _ _ free built
    by (rule create_Run_existing_file)
       (simp_all add: sample_fs_def sample_dec_def stored_text_def)
  moreover have "(files sample_fs)(sample_path \<mapsto> stored_text @ sample_enc ?merged) =
      [sample_path \<mapsto> stored_text @ sample_enc ?merged]"
    by (simp add: sample_fs_def)
  moreover have "stored_text @ sample_enc ?merged \<noteq> sample_enc ?merged"
    by (simp add: stored_text_def)
  ultimately show ?thesis by simp
qed

text \<open>
  C2. Whenever the stored config set already holds a profile of the name given to Create,
  the command ends with the error "already exists, use `config update reticule`" and
  the file system is left exactly as it was: nothing is written.
\<close>

theorem create_existing_name_conflict:
  assumes "configPath home = Inr p"
    and "files fs p = Some b" and "Op_OpenFile \<notin> failing fs" and "Op_Read \<notin> failing fs"
    and "dec b = Some cs" and "go_lookup (Configs cs) (create_Name c) = Some cfg"
  shows "create_Run enc dec home c fs = (Some (ConfigAlreadyExists (create_Name c)), fs)"
  using assms
  by (simp add: create_Run_def Fs_OpenFile_RDWR_CREATE_def File_ReadAll_def
      opened_def Capture_def)

theorem create_existing_name_conflict_witness:
  "create_Run sample_enc sample_dec (Some sample_home) (sample_create ''bob'') sample_fs =
     (Some (ConfigAlreadyExists ''bob''), sample_fs) \<and>
   files sample_fs sample_path = Some stored_text"
  using create_existing_name_conflict [of "Some sample_home" sample_path sample_fs stored_text
      sample_dec stored_set "sample_create ''bob''" bob sample_enc]
  by (simp add: sample_configPath sample_fs_def sample_dec_def stored_text_def stored_set_def
      sample_create_def go_lookup_def)

text \<open>
  C3. Create on a config file that is missing or empty (the empty document decodes to the
  zero config set, whose map is nil) succeeds, whether or not the use flag is set, and the
  config set it writes has \<open>current\<close> equal to the new name and the new profile as its only
  entry.
\<close>

theorem create_first_profile_becomes_current:
  assumes "configPath home = Inr p"
    and "files fs p = None \<or> files fs p = Some []" and "failing fs = {}"
    and "dec [] = Some \<lparr>Current = [], Configs = None\<rparr>"
    and "create_BaseURL c = Some bu" and "create_FeedURL c = Some fu"
    and "cs' = \<lparr>Current = create_Name c,
          Configs = Some [create_Name c \<mapsto>
            \<lparr>BaseURL = bu, FeedURL = fu,
             Auth = NewAuth (create_Key c) (create_Passphrase c) (create_Secret c),
             ServerIP = create_BindAddress c, ServerPort = create_ServerPort c,
             ServerSecret = create_ServerAuth c\<rparr>]\<rparr>"
  shows "fst (create_Run enc dec home c fs) = None \<and>
         files (snd (create_Run enc dec home c fs)) p = Some (enc cs') \<and>
         Current cs' = create_Name c"
proof -
  have z: "create_configSet c \<lparr>Current = [], Configs = None\<rparr> = Inr cs'"
    using assms(5-7) by (simp add: create_configSet_nil)
  have run: "fst (create_Run enc dec home c fs) = None \<and>
         files (snd (create_Run enc dec home c fs)) p = Some (enc cs')"
    using assms(2)
  proof
    assume absent: "files fs p = None"
    show ?thesis
    proof (cases "path_Dir p \<in> dirs fs")
      case True
      with absent assms(1,3,4) z show ?thesis
        by (simp add: create_Run_def Fs_OpenFile_RDWR_CREATE_def File_ReadAll_def
            opened_def create_encode_def File_Write_def File_Close_def Capture_def write_at_start
            go_lookup_def)
    next
      case False
      with absent assms(1,3) z show ?thesis
        by (simp add: create_Run_def Fs_OpenFile_RDWR_CREATE_def Fs_MkdirAll_def
            Fs_Create_def opened_def create_encode_def File_Write_def write_at_start take_all_mem)
    qed
  next
    assume empty: "files fs p = Some []"
    with assms(1,3,4) z show ?thesis
      by (simp add: create_Run_def Fs_OpenFile_RDWR_CREATE_def File_ReadAll_def
          opened_def create_encode_def File_Write_def File_Close_def Capture_def write_at_start
          go_lookup_def)
  qed
  moreover have "Current cs' = create_Name c"
    using assms(7) by simp
  ultimately show ?thesis by simp
qed

theorem create_first_profile_becomes_current_witness:
  "fst (create_Run sample_enc sample_dec (Some sample_home) (sample_create ''alice'') fresh_fs) = None \<and>
   files (snd (create_Run sample_enc sample_dec (Some sample_home) (sample_create ''alice'') fresh_fs))
     sample_path =
     Some (sample_enc \<lparr>Current = ''alice'', Configs = Some [''alice'' \<mapsto> sample_created ''alice'']\<rparr>) \<and>
   \<not> create_Use (sample_create ''alice'') \<and>
   files fresh_fs sample_path = None"
  using create_first_profile_becomes_current [of "Some sample_home" sample_path fresh_fs
      sample_dec "sample_create ''alice''"
      "''https://api.example''"
      "''wss://feed.example''"
      "\<lparr>Current = ''alice'', Configs = Some [''alice'' \<mapsto> sample_created ''alice'']\<rparr>"
      sample_enc]
  by (simp add: sample_configPath fresh_fs_def sample_dec_def sample_create_def
      sample_created_def NewAuth_def)

section \<open>Properties of Delete\<close>

lemma delete_Run_read:
  assumes "configPath home = Inr p"
    and "readConfigSet dec fs p = Inr cs"
  shows "delete_Run enc dec home d fs =
     writeConfigSet enc fs p (cs\<lparr>Configs := go_delete (Configs cs) (delete_Name d)\<rparr>)"
  using assms by (simp add: delete_Run_def)

text \<open>
  C7. Whenever the stored config set has no profile of the name given to Delete, the
  command succeeds and rewrites the file with the encoding of the config set it loaded.
\<close>

theorem delete_absent_name_rewrites_unchanged:
  assumes "configPath home = Inr p"
    and "readConfigSet dec fs p = Inr cs"
    and "go_lookup (Configs cs) (delete_Name d) = None"
    and "Op_OpenFile \<notin> failing fs" and "Op_Write \<notin> failing fs" and "Op_Close \<notin> failing fs"
  shows "delete_Run enc dec home d fs = (None, fs\<lparr>files := (files fs)(p \<mapsto> enc cs)\<rparr>)"
proof -
  from assms(3) have "cs\<lparr>Configs := go_delete (Configs cs) (delete_Name d)\<rparr> = cs"
    by (simp add: go_delete_absent)
  with assms(1,2) have "delete_Run enc dec home d fs = writeConfigSet enc fs p cs"
    by (simp add: delete_Run_read)
  with assms(2,4-6) show ?thesis
    by (simp add: writeConfigSet_read)
qed

theorem delete_absent_name_rewrites_unchanged_witness:
  "delete_Run sample_enc sample_dec (Some sample_home) \<lparr>delete_Name = ''carol''\<rparr> sample_fs =
     (None, sample_fs\<lparr>files := [sample_path \<mapsto> sample_enc stored_set]\<rparr>)"
  using delete_absent_name_rewrites_unchanged [of "Some sample_home" sample_path sample_dec
      sample_fs stored_set "\<lparr>delete_Name = ''carol''\<rparr>" sample_enc]
  by (simp add: sample_configPath sample_read)
     (simp add: sample_fs_def stored_set_def go_lookup_def)

text \<open>
  C8. Delete leaves \<open>current\<close> alone: the config set it writes has the \<open>current\<close> of the
  loaded one, also when that is the deleted name, which is then no key of the map; every
  other profile is as it was.
\<close>

theorem delete_keeps_current:
  assumes "configPath home = Inr p"
    and "readConfigSet dec fs p = Inr cs"
    and "Op_OpenFile \<notin> failing fs" and "Op_Write \<notin> failing fs" and "Op_Close \<notin> failing fs"
    and "cs' = cs\<lparr>Configs := go_delete (Configs cs) (delete_Name d)\<rparr>"
  shows "delete_Run enc dec home d fs = (None, fs\<lparr>files := (files fs)(p \<mapsto> enc cs')\<rparr>) \<and>
         Current cs' = Current cs \<and>
         go_lookup (Configs cs') (delete_Name d) = None \<and>
         (\<forall>k. k \<noteq> delete_Name d \<longrightarrow> go_lookup (Configs cs') k = go_lookup (Configs cs) k)"
proof -
  from assms(1,2,6) have "delete_Run enc dec home d fs = writeConfigSet enc fs p cs'"
    by (simp add: delete_Run_read)
  with assms(2-5) have "delete_Run enc dec home d fs =
      (None, fs\<lparr>files := (files fs)(p \<mapsto> enc cs')\<rparr>)"
    by (simp add: writeConfigSet_read)
  with assms(6) show ?thesis
    by (simp add: go_lookup_delete)
qed

theorem delete_keeps_current_witness:
  "delete_Run sample_enc sample_dec (Some sample_home) \<lparr>delete_Name = ''alice''\<rparr> sample_fs =
     (None, sample_fs\<lparr>files := [sample_path \<mapsto>
        sample_enc \<lparr>Current = ''alice'', Configs = Some [''bob'' \<mapsto> bob]\<rparr>]\<rparr>) \<and>
   Current stored_set = ''alice''"
proof -
  have "[''alice'' \<mapsto> alice, ''bob'' \<mapsto> bob](''alice'' := None) = [''bob'' \<mapsto> bob]"
    by (rule ext) simp
  then have "stored_set\<lparr>Configs := go_delete (Configs stored_set) ''alice''\<rparr> =
      \<lparr>Current = ''alice'', Configs = Some [''bob'' \<mapsto> bob]\<rparr>"
    by (simp add: stored_set_def go_delete_def)
  with delete_keeps_current [of "Some sample_home" sample_path sample_dec sample_fs stored_set
      "\<lparr>Current = ''alice'', Configs = Some [''bob'' \<mapsto> bob]\<rparr>" "\<lparr>delete_Name = ''alice''\<rparr>"
      sample_enc]
  show ?thesis
    by (simp add: sample_configPath sample_read)
       (simp add: sample_fs_def stored_set_def)
qed

section \<open>Properties of Update\<close>

lemma update_credentials_error:
  "update_credentials c cfg = Inl e \<Longrightarrow> e = PanicNilPointer \<and> Auth cfg = None"
  by (cases "Auth cfg")
     (auto simp add: update_credentials_def assign_Auth_def Let_def
       split: option.splits if_splits sum.splits)

lemma update_credentials_nil:
  assumes "Auth cfg = None"
    and "update_Key c \<noteq> [] \<or> update_Passphrase c \<noteq> [] \<or> update_Secret c \<noteq> []"
  shows "update_credentials c cfg = Inl PanicNilPointer"
  using assms
  by (auto simp add: update_credentials_def assign_Auth_def Let_def
       split: option.splits if_splits sum.splits)

lemma update_credentials_total:
  assumes "Auth cfg \<noteq> None \<or>
           (update_Key c = [] \<and> update_Passphrase c = [] \<and> update_Secret c = [])"
  shows "\<exists>cfg'. update_credentials c cfg = Inr cfg'"
proof (cases "update_credentials c cfg")
  case (Inl e)
  then have "Auth cfg = None" by (simp add: update_credentials_error)
  with assms have "update_Key c = [] \<and> update_Passphrase c = [] \<and> update_Secret c = []" by simp
  then have "\<exists>cfg'. update_credentials c cfg = Inr cfg'"
    by (simp add: update_credentials_def Let_def)
  with Inl show ?thesis by simp
next
  case (Inr cfg')
  then show ?thesis by simp
qed

lemma update_configSet_error:
  assumes "go_lookup (Configs cs) (update_Name c) = Some cfg"
    and "update_configSet c cs = Inl e"
  shows "e = PanicNilPointer \<and> Auth cfg = None"
proof -
  from assms(1) obtain m where m: "Configs cs = Some m"
    by (cases "Configs cs") (simp_all add: go_lookup_def)
  from assms m show ?thesis
    by (auto simp add: update_configSet_def Let_def go_assign_def go_delete_def
        split: sum.splits if_splits dest: update_credentials_error)
qed

lemma update_configSet_nil:
  assumes "go_lookup (Configs cs) (update_Name c) = Some cfg"
    and "Auth cfg = None"
    and "update_Key c \<noteq> [] \<or> update_Passphrase c \<noteq> [] \<or> update_Secret c \<noteq> []"
  shows "update_configSet c cs = Inl PanicNilPointer"
  using assms by (simp add: update_configSet_def update_credentials_nil)

lemma update_configSet_total:
  assumes "go_lookup (Configs cs) (update_Name c) = Some cfg"
    and "Auth cfg \<noteq> None \<or>
         (update_Key c = [] \<and> update_Passphrase c = [] \<and> update_Secret c = [])"
  shows "\<exists>cs'. update_configSet c cs = Inr cs'"
proof -
  from assms(1) obtain m where m: "Configs cs = Some m"
    by (cases "Configs cs") (simp_all add: go_lookup_def)
  from assms(2) obtain cfg' where "update_credentials c cfg = Inr cfg'"
    using update_credentials_total by blast
  with assms(1) m show ?thesis
    by (simp add: update_configSet_def Let_def go_assign_def go_delete_def)
qed

lemma update_configSet_Current:
  assumes "update_configSet c cs = Inr cs'" and "\<not> update_Use c"
  shows "Current cs' = Current cs"
  using assms
  by (auto simp add: update_configSet_def Let_def go_assign_def go_delete_def
      split: option.splits sum.splits if_splits)

lemma update_configSet_renamed:
  assumes "update_configSet c cs = Inr cs'"
    and "update_Rename c \<noteq> []" and "update_Rename c \<noteq> update_Name c"
  shows "go_lookup (Configs cs') (update_Name c) = None \<and>
         go_lookup (Configs cs') (update_Rename c) \<noteq> None"
  using assms
  by (auto simp add: update_configSet_def Let_def go_assign_def go_delete_def go_lookup_def
      split: option.splits sum.splits if_splits)

lemma update_Run_read:
  assumes "configPath home = Inr p"
    and "readConfigSet dec fs p = Inr cs"
  shows "update_Run enc dec home c fs =
     (case update_configSet c cs of
        Inl e \<Rightarrow> (Some e, fs)
      | Inr cs' \<Rightarrow> writeConfigSet enc fs p cs')"
  using assms by (simp add: update_Run_def)

text \<open>
  C4. An Update of an existing profile that supplies the key and nothing else writes the
  loaded config set with that profile's \<open>Auth.Key\<close> replaced: the other fields of the
  profile, the other profiles and \<open>current\<close> are the loaded ones. (Where the profile has no
  credentials the assignment panics and nothing is written.)
\<close>

theorem update_key_only_frame:
  assumes "configPath home = Inr p"
    and "readConfigSet dec fs p = Inr cs"
    and "Configs cs = Some m" and "m n = Some cfg"
    and "Op_OpenFile \<notin> failing fs" and "Op_Write \<notin> failing fs" and "Op_Close \<notin> failing fs"
    and "k \<noteq> []"
    and "c = \<lparr>update_Name = n, update_BaseURL = None, update_FeedURL = None, update_Key = k,
              update_Passphrase = [], update_Rename = [], update_Secret = [],
              update_Use = False, update_ServerPort = 0, update_BindAddress = [],
              update_ServerAuth = []\<rparr>"
  shows "update_Run enc dec home c fs =
     (case Auth cfg of
        None \<Rightarrow> (Some PanicNilPointer, fs)
      | Some a \<Rightarrow>
          (None, fs\<lparr>files := (files fs)(p \<mapsto>
             enc (cs\<lparr>Configs := Some (m(n \<mapsto> cfg\<lparr>Auth := Some (a\<lparr>Key := k\<rparr>)\<rparr>))\<rparr>))\<rparr>))"
proof -
  have run: "update_Run enc dec home c fs =
     (case update_configSet c cs of
        Inl e \<Rightarrow> (Some e, fs)
      | Inr cs' \<Rightarrow> writeConfigSet enc fs p cs')"
    using assms(1,2) by (rule update_Run_read)
  show ?thesis
  proof (cases "Auth cfg")
    case None
    with assms(3,4,8,9) have "update_configSet c cs = Inl PanicNilPointer"
      by (simp add: update_configSet_def go_lookup_def update_credentials_def assign_Auth_def)
    with run None show ?thesis by simp
  next
    case (Some a)
    with assms(3,4,8,9) have "update_configSet c cs =
        Inr (cs\<lparr>Configs := Some (m(n \<mapsto> cfg\<lparr>Auth := Some (a\<lparr>Key := k\<rparr>)\<rparr>))\<rparr>)"
      by (simp add: update_configSet_def go_lookup_def update_credentials_def assign_Auth_def
          update_server_def go_assign_def Let_def)
    with run Some assms(2,5-7) show ?thesis
      by (simp add: writeConfigSet_read)
  qed
qed

theorem update_key_only_frame_witness:
  "update_Run sample_enc sample_dec (Some sample_home)
     ((sample_update ''bob'')\<lparr>update_Key := ''K9''\<rparr>) sample_fs =
     (None, sample_fs\<lparr>files := [sample_path \<mapsto>
        sample_enc \<lparr>Current = ''alice'',
          Configs = Some [''alice'' \<mapsto> alice,
            ''bob'' \<mapsto> bob\<lparr>Auth := Some \<lparr>Key = ''K9'', Passphrase = ''P2'', Secret = ''S2''\<rparr>\<rparr>]\<rparr>]\<rparr>)"
  using update_key_only_frame [of "Some sample_home" sample_path sample_dec sample_fs stored_set
      "[''alice'' \<mapsto> alice, ''bob'' \<mapsto> bob]" "''bob''" bob "''K9''"
      "(sample_update ''bob'')\<lparr>update_Key := ''K9''\<rparr>" sample_enc]
  by (simp add: sample_configPath sample_read)
     (simp add: sample_fs_def stored_set_def sample_update_def bob_def)

text \<open>
  C5. Update on a missing config file ends with the error "config file ... does not
  exist", and Update on a file whose config set has no profile of the requested name ends
  with the error "reticule config ... does not exists, use `config create reticule`";
  in both cases the file system is left exactly as it was.
\<close>

theorem update_missing_file_or_profile:
  assumes "configPath home = Inr p"
  shows "(files fs p = None \<longrightarrow>
            update_Run enc dec home c fs = (Some (ConfigFileDoesNotExist p), fs)) \<and>
         (\<forall>cs. readConfigSet dec fs p = Inr cs \<and> go_lookup (Configs cs) (update_Name c) = None \<longrightarrow>
            update_Run enc dec home c fs = (Some (ConfigDoesNotExist (update_Name c)), fs))"
  using assms
  by (simp add: update_Run_def readConfigSet_missing update_configSet_def)

theorem update_missing_file_or_profile_witness:
  "files fresh_fs sample_path = None \<and>
   update_Run sample_enc sample_dec (Some sample_home) (sample_update ''bob'') fresh_fs =
     (Some (ConfigFileDoesNotExist sample_path), fresh_fs) \<and>
   readConfigSet sample_dec sample_fs sample_path = Inr stored_set \<and>
   go_lookup (Configs stored_set) ''carol'' = None \<and>
   update_Run sample_enc sample_dec (Some sample_home) (sample_update ''carol'') sample_fs =
     (Some (ConfigDoesNotExist ''carol''), sample_fs)"
proof -
  have absent: "files fresh_fs sample_path = None"
    by (simp add: fresh_fs_def)
  have free: "go_lookup (Configs stored_set) (update_Name (sample_update ''carol'')) = None"
    by (simp add: go_lookup_def stored_set_def sample_update_def)
  from update_missing_file_or_profile [OF sample_configPath, of fresh_fs sample_enc sample_dec
      "sample_update ''bob''"] absent
  have one: "update_Run sample_enc sample_dec (Some sample_home) (sample_update ''bob'') fresh_fs =
     (Some (ConfigFileDoesNotExist sample_path), fresh_fs)"
    by simp
  from update_missing_file_or_profile [OF sample_configPath, of sample_fs sample_enc sample_dec
      "sample_update ''carol''"] sample_read free
  have two: "update_Run sample_enc sample_dec (Some sample_home) (sample_update ''carol'') sample_fs =
     (Some (ConfigDoesNotExist ''carol''), sample_fs)"
    by (simp add: sample_update_def)
  from absent one two sample_read free show ?thesis
    by (simp add: sample_update_def)
qed

text \<open>
  C6. With profiles \<open>alice\<close> and \<open>bob\<close> stored and \<open>alice\<close> current, the Update of \<open>bob\<close> that
  renames it to \<open>carol\<close> with the use flag, and supplies nothing else, writes a config set
  whose \<open>current\<close> is \<open>carol\<close>, whose profile \<open>carol\<close> is the stored profile \<open>bob\<close>, in which
  \<open>bob\<close> is no key, and whose profile \<open>alice\<close> is the stored one.
\<close>

theorem update_rename_use_scenario:
  assumes "configPath home = Inr p"
    and "readConfigSet dec fs p = Inr cs"
    and "Current cs = ''alice''"
    and "Configs cs = Some m" and "m ''alice'' = Some a" and "m ''bob'' = Some b"
    and "Op_OpenFile \<notin> failing fs" and "Op_Write \<notin> failing fs" and "Op_Close \<notin> failing fs"
    and "c = \<lparr>update_Name = ''bob'', update_BaseURL = None, update_FeedURL = None,
              update_Key = [], update_Passphrase = [], update_Rename = ''carol'',
              update_Secret = [], update_Use = True, update_ServerPort = 0,
              update_BindAddress = [], update_ServerAuth = []\<rparr>"
    and "m' = m(''bob'' := None, ''carol'' \<mapsto> b)"
  shows "update_Run enc dec home c fs =
           (None, fs\<lparr>files := (files fs)(p \<mapsto> enc \<lparr>Current = ''carol'', Configs = Some m'\<rparr>)\<rparr>) \<and>
         m' ''carol'' = Some b \<and> m' ''bob'' = None \<and> m' ''alice'' = Some a \<and>
         (\<forall>k. k \<noteq> ''bob'' \<and> k \<noteq> ''carol'' \<longrightarrow> m' k = m k)"
proof -
  have run: "update_Run enc dec home c fs =
     (case update_configSet c cs of
        Inl e \<Rightarrow> (Some e, fs)
      | Inr cs' \<Rightarrow> writeConfigSet enc fs p cs')"
    using assms(1,2) by (rule update_Run_read)
  have "update_configSet c cs = Inr \<lparr>Current = ''carol'', Configs = Some m'\<rparr>"
    using assms(3,4,6,10,11)
    by (cases cs)
       (simp add: update_configSet_def go_lookup_def update_credentials_def
          update_server_def go_assign_def go_delete_def Let_def)
  with run assms(2,7-9) have "update_Run enc dec home c fs =
           (None, fs\<lparr>files := (files fs)(p \<mapsto> enc \<lparr>Current = ''carol'', Configs = Some m'\<rparr>)\<rparr>)"
    by (simp add: writeConfigSet_read)
  moreover from assms(5,11) have "m' ''alice'' = Some a" by simp
  ultimately show ?thesis using assms(11) by simp
qed

theorem update_rename_use_scenario_witness:
  "update_Run sample_enc sample_dec (Some sample_home)
     ((sample_update ''bob'')\<lparr>update_Rename := ''carol'', update_Use := True\<rparr>) sample_fs =
     (None, sample_fs\<lparr>files := [sample_path \<mapsto>
        sample_enc \<lparr>Current = ''carol'', Configs = Some [''alice'' \<mapsto> alice, ''carol'' \<mapsto> bob]\<rparr>]\<rparr>)"
proof -
  have "[''alice'' \<mapsto> alice, ''bob'' \<mapsto> bob](''bob'' := None, ''carol'' \<mapsto> bob) =
      [''alice'' \<mapsto> alice, ''carol'' \<mapsto> bob]"
    by (rule ext) simp
  with update_rename_use_scenario [of "Some sample_home" sample_path sample_dec sample_fs
      stored_set "[''alice'' \<mapsto> alice, ''bob'' \<mapsto> bob]" alice bob
      "(sample_update ''bob'')\<lparr>update_Rename := ''carol'', update_Use := True\<rparr>"
      "[''alice'' \<mapsto> alice, ''carol'' \<mapsto> bob]" sample_enc]
  show ?thesis
    by (simp add: sample_configPath sample_read)
       (simp add: sample_fs_def stored_set_def sample_update_def)
qed

text \<open>
  C9. For an Update of an existing profile that supplies a key, a passphrase or a secret,
  the command panics on a nil pointer exactly when the profile's decoded \<open>Auth\<close> is nil,
  and then nothing is written; with \<open>Auth\<close> present the patch yields a config set.
\<close>

theorem update_credentials_panic_iff_nil_Auth:
  assumes "configPath home = Inr p"
    and "readConfigSet dec fs p = Inr cs"
    and "go_lookup (Configs cs) (update_Name c) = Some cfg"
    and "update_Key c \<noteq> [] \<or> update_Passphrase c \<noteq> [] \<or> update_Secret c \<noteq> []"
  shows "(fst (update_Run enc dec home c fs) = Some PanicNilPointer) = (Auth cfg = None) \<and>
         (Auth cfg = None \<longrightarrow> update_Run enc dec home c fs = (Some PanicNilPointer, fs)) \<and>
         (Auth cfg \<noteq> None \<longrightarrow>
            (\<exists>cs'. update_configSet c cs = Inr cs' \<and>
                   update_Run enc dec home c fs = writeConfigSet enc fs p cs'))"
proof -
  have run: "update_Run enc dec home c fs =
     (case update_configSet c cs of
        Inl e \<Rightarrow> (Some e, fs)
      | Inr cs' \<Rightarrow> writeConfigSet enc fs p cs')"
    using assms(1,2) by (rule update_Run_read)
  show ?thesis
  proof (cases "Auth cfg")
    case None
    with assms(3,4) have "update_configSet c cs = Inl PanicNilPointer"
      by (simp add: update_configSet_nil)
    with run None show ?thesis by simp
  next
    case (Some a)
    with assms(3) obtain cs' where cs': "update_configSet c cs = Inr cs'"
      using update_configSet_total [of cs c cfg] by auto
    with run have same: "update_Run enc dec home c fs = writeConfigSet enc fs p cs'"
      by simp
    have "fst (writeConfigSet enc fs p cs') \<noteq> Some PanicNilPointer"
      using writeConfigSet_error [of enc fs p cs' PanicNilPointer] by auto
    with same cs' Some show ?thesis by simp
  qed
qed

theorem update_credentials_panic_iff_nil_Auth_witness:
  "Auth dave = None \<and>
   update_Run sample_enc sample_dec (Some sample_home)
     ((sample_update ''dave'')\<lparr>update_Secret := ''S9''\<rparr>) legacy_fs =
     (Some PanicNilPointer, legacy_fs) \<and>
   Auth bob \<noteq> None \<and>
   fst (update_Run sample_enc sample_dec (Some sample_home)
     ((sample_update ''bob'')\<lparr>update_Secret := ''S9''\<rparr>) sample_fs) \<noteq> Some PanicNilPointer"
proof -
  have nil: "Auth dave = None" and present: "Auth bob \<noteq> None"
    by (simp_all add: dave_def bob_def)
  have "go_lookup (Configs legacy_set)
      (update_Name ((sample_update ''dave'')\<lparr>update_Secret := ''S9''\<rparr>)) = Some dave"
    by (simp add: legacy_set_def sample_update_def go_lookup_def)
  from update_credentials_panic_iff_nil_Auth [OF sample_configPath legacy_read this, of sample_enc] nil
  have one: "update_Run sample_enc sample_dec (Some sample_home)
     ((sample_update ''dave'')\<lparr>update_Secret := ''S9''\<rparr>) legacy_fs =
     (Some PanicNilPointer, legacy_fs)"
    by (simp add: sample_update_def)
  have "go_lookup (Configs stored_set)
      (update_Name ((sample_update ''bob'')\<lparr>update_Secret := ''S9''\<rparr>)) = Some bob"
    by (simp add: stored_set_def sample_update_def go_lookup_def)
  from update_credentials_panic_iff_nil_Auth [OF sample_configPath sample_read this, of sample_enc] present
  have two: "fst (update_Run sample_enc sample_dec (Some sample_home)
     ((sample_update ''bob'')\<lparr>update_Secret := ''S9''\<rparr>) sample_fs) \<noteq> Some PanicNilPointer"
    by (simp add: sample_update_def)
  from nil one present two show ?thesis by simp
qed

text \<open>
  C10. An Update without the use flag leaves \<open>current\<close> alone. Either the patch fails and
  nothing is written, or it yields a config set with the \<open>current\<close> of the loaded one, and
  that set is what is written; it is yielded whenever the profile exists and has
  credentials or none are supplied. After a rename to a different name the old name is
  no key of the map, so a \<open>current\<close> equal to the old name points at no profile.
\<close>

theorem update_without_use_keeps_current:
  assumes "configPath home = Inr p"
    and "readConfigSet dec fs p = Inr cs"
    and "\<not> update_Use c"
  shows "(\<forall>e. update_configSet c cs = Inl e \<longrightarrow> update_Run enc dec home c fs = (Some e, fs)) \<and>
         (\<forall>cs'. update_configSet c cs = Inr cs' \<longrightarrow>
            update_Run enc dec home c fs = writeConfigSet enc fs p cs' \<and>
            Current cs' = Current cs \<and>
            (update_Rename c \<noteq> [] \<and> update_Rename c \<noteq> update_Name c \<longrightarrow>
               go_lookup (Configs cs') (update_Name c) = None \<and>
               go_lookup (Configs cs') (update_Rename c) \<noteq> None)) \<and>
         (\<forall>cfg. go_lookup (Configs cs) (update_Name c) = Some cfg \<and>
            (Auth cfg \<noteq> None \<or>
             (update_Key c = [] \<and> update_Passphrase c = [] \<and> update_Secret c = [])) \<longrightarrow>
            (\<exists>cs'. update_configSet c cs = Inr cs'))"
proof -
  have run: "update_Run enc dec home c fs =
     (case update_configSet c cs of
        Inl e \<Rightarrow> (Some e, fs)
      | Inr cs' \<Rightarrow> writeConfigSet enc fs p cs')"
    using assms(1,2) by (rule update_Run_read)
  have "\<forall>e. update_configSet c cs = Inl e \<longrightarrow> update_Run enc dec home c fs = (Some e, fs)"
    using run by simp
  moreover have "\<forall>cs'. update_configSet c cs = Inr cs' \<longrightarrow>
            update_Run enc dec home c fs = writeConfigSet enc fs p cs' \<and>
            Current cs' = Current cs \<and>
            (update_Rename c \<noteq> [] \<and> update_Rename c \<noteq> update_Name c \<longrightarrow>
               go_lookup (Configs cs') (update_Name c) = None \<and>
               go_lookup (Configs cs') (update_Rename c) \<noteq> None)"
  proof (intro allI impI)
    fix cs'
    assume patched: "update_configSet c cs = Inr cs'"
    with run have "update_Run enc dec home c fs = writeConfigSet enc fs p cs'"
      by simp
    moreover from patched assms(3) have "Current cs' = Current cs"
      by (rule update_configSet_Current)
    moreover have "update_Rename c \<noteq> [] \<and> update_Rename c \<noteq> update_Name c \<longrightarrow>
               go_lookup (Configs cs') (update_Name c) = None \<and>
               go_lookup (Configs cs') (update_Rename c) \<noteq> None"
      using patched update_configSet_renamed [of c cs cs'] by blast
    ultimately show "update_Run enc dec home c fs = writeConfigSet enc fs p cs' \<and>
            Current cs' = Current cs \<and>
            (update_Rename c \<noteq> [] \<and> update_Rename c \<noteq> update_Name c \<longrightarrow>
               go_lookup (Configs cs') (update_Name c) = None \<and>
               go_lookup (Configs cs') (update_Rename c) \<noteq> None)"
      by (intro conjI)
  qed
  moreover have "\<forall>cfg. go_lookup (Configs cs) (update_Name c) = Some cfg \<and>
            (Auth cfg \<noteq> None \<or>
             (update_Key c = [] \<and> update_Passphrase c = [] \<and> update_Secret c = [])) \<longrightarrow>
            (\<exists>cs'. update_configSet c cs = Inr cs')"
    using update_configSet_total [of cs c] by blast
  ultimately show ?thesis by blast
qed

theorem update_without_use_keeps_current_witness:
  "update_configSet ((sample_update ''alice'')\<lparr>update_Rename := ''carol''\<rparr>) stored_set =
     Inr \<lparr>Current = ''alice'', Configs = Some [''bob'' \<mapsto> bob, ''carol'' \<mapsto> alice]\<rparr> \<and>
   update_Run sample_enc sample_dec (Some sample_home)
     ((sample_update ''alice'')\<lparr>update_Rename := ''carol''\<rparr>) sample_fs =
     (None, sample_fs\<lparr>files := [sample_path \<mapsto>
        sample_enc \<lparr>Current = ''alice'', Configs = Some [''bob'' \<mapsto> bob, ''carol'' \<mapsto> alice]\<rparr>]\<rparr>) \<and>
   Current stored_set = ''alice'' \<and>
   go_lookup (Some [''bob'' \<mapsto> bob, ''carol'' \<mapsto> alice]) ''alice'' = None"
proof -
  let ?c = "(sample_update ''alice'')\<lparr>update_Rename := ''carol''\<rparr>"
  let ?cs' = "\<lparr>Current = ''alice'', Configs = Some [''bob'' \<mapsto> bob, ''carol'' \<mapsto> alice]\<rparr>"
  have "[''alice'' \<mapsto> alice, ''bob'' \<mapsto> bob](''alice'' := None, ''carol'' \<mapsto> alice) =
      [''bob'' \<mapsto> bob, ''carol'' \<mapsto> alice]"
    by (rule ext) simp
  then have patched: "update_configSet ?c stored_set = Inr ?cs'"
    by (simp add: update_configSet_def go_lookup_def update_credentials_def
          update_server_def go_assign_def go_delete_def Let_def stored_set_def sample_update_def)
  have "writeConfigSet sample_enc sample_fs sample_path ?cs' =
      (None, sample_fs\<lparr>files := (files sample_fs)(sample_path \<mapsto> sample_enc ?cs')\<rparr>)"
    using sample_read by (rule writeConfigSet_read) (simp_all add: sample_fs_def)
  then have written: "writeConfigSet sample_enc sample_fs sample_path ?cs' =
      (None, sample_fs\<lparr>files := [sample_path \<mapsto> sample_enc ?cs']\<rparr>)"
    by (simp add: sample_fs_def)
  have unused: "\<not> update_Use ?c"
    by (simp add: sample_update_def)
  from update_without_use_keeps_current [OF sample_configPath sample_read unused, of sample_enc]
    patched written
  show ?thesis
    by (simp add: stored_set_def go_lookup_def)
qed

end
